theory Spec2Isabelle
  imports Complex_Main
begin

section \<open>Python strings\<close>

text \<open>
  Byte strings and text are both modelled as \<open>string\<close>, a list of bytes. The
  operations below are the string methods the sources call.
\<close>

definition CR :: char where "CR = CHR 0x0D"
definition LF :: char where "LF = CHR 0x0A"
definition DQ :: char where "DQ = CHR 0x22"

text \<open>The line terminator \<open>"\r\n"\<close> and the blank-line marker \<open>"\r\n\r\n"\<close>.\<close>

definition CRLF :: string where "CRLF = [CR, LF]"
definition CRLFCRLF :: string where "CRLFCRLF = [CR, LF, CR, LF]"

text \<open>\<open>s.startswith(p)\<close>.\<close>

fun startswith :: "string \<Rightarrow> string \<Rightarrow> bool" where
  "startswith s [] = True"
| "startswith [] (p # ps) = False"
| "startswith (c # cs) (p # ps) = (c = p \<and> startswith cs ps)"

text \<open>\<open>sub in s\<close> for strings.\<close>

fun contains :: "string \<Rightarrow> string \<Rightarrow> bool" where
  "contains sub [] = (sub = [])"
| "contains sub (c # cs) = (startswith (c # cs) sub \<or> contains sub cs)"

text \<open>
  \<open>s.split(sep)\<close> for a non-empty separator: the text is cut at every occurrence of
  the separator, found from the left without overlap. \<open>cur\<close> holds the characters of
  the current piece in reverse. (Python raises ValueError on an empty separator; the
  sources only pass the constants \<open>"\r\n\r\n"\<close>, \<open>"\r\n"\<close> and \<open>"="\<close>.)
\<close>

function split_from :: "string \<Rightarrow> string \<Rightarrow> string \<Rightarrow> string list" where
  "split_from sep cur s =
     (if s = [] then [rev cur]
      else if sep \<noteq> [] \<and> startswith s sep
        then rev cur # split_from sep [] (drop (length sep) s)
        else split_from sep (hd s # cur) (tl s))"
  by pat_completeness auto
termination
  by (relation "measure (\<lambda>(sep, cur, s). length s)") auto

declare split_from.simps [simp del]

definition py_split :: "string \<Rightarrow> string \<Rightarrow> string list" where
  "py_split s sep = split_from sep [] s"

text \<open>\<open>s.replace(c, "")\<close> for a one-character \<open>c\<close>.\<close>

definition remove_char :: "char \<Rightarrow> string \<Rightarrow> string" where
  "remove_char c s = filter (\<lambda>x. x \<noteq> c) s"

text \<open>\<open>s.upper()\<close> on ASCII text: the letters a to z are moved to A to Z.\<close>

definition upper_char :: "char \<Rightarrow> char" where
  "upper_char c =
     (case map_of (zip ''abcdefghijklmnopqrstuvwxyz'' ''ABCDEFGHIJKLMNOPQRSTUVWXYZ'') c of
        None \<Rightarrow> c
      | Some u \<Rightarrow> u)"

definition upper :: "string \<Rightarrow> string" where
  "upper s = map upper_char s"

text \<open>\<open>str(n)\<close> for an integer: its decimal digits, with a minus sign when negative.\<close>

fun str_nat :: "nat \<Rightarrow> string" where
  "str_nat n =
     (if n < 10 then [''0123456789'' ! n]
      else str_nat (n div 10) @ [''0123456789'' ! (n mod 10)])"

declare str_nat.simps [simp del]

definition str_int :: "int \<Rightarrow> string" where
  "str_int i = (if i < 0 then CHR ''-'' # str_nat (nat (- i)) else str_nat (nat i))"

text \<open>
  \<open>chunk.decode("utf-8")\<close> raises UnicodeError unless the bytes are well-formed UTF-8:
  a byte below 0x80 stands alone, a lead byte 0xC2 to 0xDF takes one continuation
  byte, 0xE0 to 0xEF two and 0xF0 to 0xF4 three, where the first continuation byte
  is further bounded after 0xE0 and 0xF0 (no overlong forms), after 0xED (no
  surrogates) and after 0xF4 (nothing above U+10FFFF); every other byte is an error.

  The decoded text is represented by these same bytes. The listener only cuts text at
  ASCII separators, searches ASCII substrings and compares with ASCII literals, and no
  byte of a multi-byte character is an ASCII byte, so these operations give the same
  on the bytes as on the characters. The slice \<open>[14:]\<close> counts bytes here and
  characters there; the two differ only for a line with a character outside ASCII
  among its first fourteen, and the slice of such a line that contains
  \<open>Content-Type: \<close> is \<open>application/json\<close> in neither reading.
\<close>

definition byte :: "char \<Rightarrow> nat" where
  "byte c = of_char c"

definition continuation :: "char \<Rightarrow> bool" where
  "continuation c = (0x80 \<le> byte c \<and> byte c \<le> 0xBF)"

fun valid_utf8 :: "string \<Rightarrow> bool" where
  "valid_utf8 [] = True"
| "valid_utf8 (b # bs) =
     (if byte b < 0x80 then valid_utf8 bs
      else if 0xC2 \<le> byte b \<and> byte b \<le> 0xDF then
        (case bs of
           b1 # r \<Rightarrow> continuation b1 \<and> valid_utf8 r
         | _ \<Rightarrow> False)
      else if 0xE0 \<le> byte b \<and> byte b \<le> 0xEF then
        (case bs of
           b1 # b2 # r \<Rightarrow>
             continuation b1 \<and> continuation b2
             \<and> (if byte b = 0xE0 then 0xA0 \<le> byte b1 else True)
             \<and> (if byte b = 0xED then byte b1 \<le> 0x9F else True)
             \<and> valid_utf8 r
         | _ \<Rightarrow> False)
      else if 0xF0 \<le> byte b \<and> byte b \<le> 0xF4 then
        (case bs of
           b1 # b2 # b3 # r \<Rightarrow>
             continuation b1 \<and> continuation b2 \<and> continuation b3
             \<and> (if byte b = 0xF0 then 0x90 \<le> byte b1 else True)
             \<and> (if byte b = 0xF4 then byte b1 \<le> 0x8F else True)
             \<and> valid_utf8 r
         | _ \<Rightarrow> False)
      else False)"

definition decode :: "string \<Rightarrow> string option" where
  "decode chunk = (if valid_utf8 chunk then Some chunk else None)"

section \<open>The response encoder (HTTP.py)\<close>

text \<open>The table \<open>CODES\<close> of status codes and reason phrases, in the order of the source.\<close>

definition CODES :: "(int \<times> string) list" where
  "CODES =
    [(100, ''Continue''),
     (101, ''Switching Protocols''),
     (200, ''OK''),
     (201, ''Created''),
     (202, ''Accepted''),
     (203, ''Non-Authoritative Information''),
     (204, ''No Content''),
     (205, ''Reset Content''),
     (206, ''Partial Content''),
     (300, ''Multiple Choices''),
     (301, ''Moved Permanently''),
     (302, ''Found''),
     (303, ''See Other''),
     (304, ''Not Modified''),
     (305, ''Use Proxy''),
     (307, ''Temporary Redirect''),
     (400, ''Bad Request''),
     (401, ''Unauthorized''),
     (402, ''Payment Required''),
     (403, ''Forbidden''),
     (404, ''Not Found''),
     (405, ''Method Not Allowed''),
     (406, ''Not Acceptable''),
     (407, ''Proxy Authentication Required''),
     (408, ''Request Timeout''),
     (409, ''Conflict''),
     (410, ''Gone''),
     (411, ''Length Required''),
     (412, ''Precondition Failed''),
     (413, ''Request Entity Too Large''),
     (414, ''Request-URI Too Long''),
     (415, ''Unsupported Media Type''),
     (416, ''Requested Range Not Satisfiable''),
     (417, ''Expectation Failed''),
     (500, ''Internal Server Error''),
     (501, ''Not Implemented''),
     (502, ''Bad Gateway''),
     (503, ''Service Unavailable''),
     (504, ''Gateway Timeout''),
     (505, ''HTTP Version Not Supported'')]"

text \<open>The exceptions that the modelled code can raise.\<close>

datatype fatal =
    RegexMismatch string
  | WrongType string
  | RequiredMissing string
  | RequiredIf string string
  | NoSettingsFile

datatype exn =
    ValueError
  | NameError
  | KeyError
  | TypeError
  | IndexError
  | OSError
  | AttributeError
  | UnicodeError
  | SystemExit fatal

text \<open>
  JSON values as \<open>json.loads\<close> returns them: \<open>None\<close>, booleans, numbers, strings,
  lists and dictionaries. A dictionary is the list of its items; its keys are distinct.
\<close>

datatype json =
    JNone
  | JBool bool
  | JInt int
  | JFloat real
  | JStr string
  | JList "json list"
  | JDict "(string \<times> json) list"

text \<open>
  What the outside world can observe of the listener: a connection is accepted, text
  is sent on it, it is closed, and the buzzer is run by
  \<open>alarm(buzzer, enabled_for, on, off)\<close>.
\<close>

datatype event =
    Accepted
  | Sent string
  | Closed
  | Alarm int int int

text \<open>
  The state of \<open>HTTP.listen\<close>: its locals \<open>content_type\<close> and \<open>data\<close> live across
  the iterations of the outer loop (\<open>None\<close>: not bound yet), \<open>closed\<close> says whether
  \<open>close()\<close> was called on the current \<open>self._conn\<close>, and \<open>events\<close> is the history.
\<close>

record listener =
  content_type :: "string option"
  data :: "json option"
  closed :: bool
  events :: "event list"

text \<open>A statement either completes with a new state or raises, leaving a state behind.\<close>

type_synonym outcome = "(exn \<times> listener) + listener"

text \<open>
  \<open>HTTP._send\<close>. Sending on a socket that was closed raises OSError (the behaviour of
  the socket module, which is not part of the sources).
\<close>

definition status_line :: "int \<Rightarrow> string \<Rightarrow> string" where
  "status_line code reason =
     ''HTTP/1.1 '' @ str_int code @ '' '' @ reason @ '' '' @ CRLF @ CRLF"

definition send :: "int \<Rightarrow> listener \<Rightarrow> outcome" where
  "send code s =
     (case map_of CODES code of
        None \<Rightarrow> Inl (ValueError, s)
      | Some reason \<Rightarrow>
          if closed s then Inl (OSError, s)
          else Inr (s\<lparr>closed := True,
                      events := events s @ [Sent (status_line code reason), Closed]\<rparr>))"

text \<open>
  A client's reading of a response, after the words of the specification: the text
  between the HTTP version with its space and the final space, line terminator and
  blank line. Anything else is not a bare status line.
\<close>

definition decode_status :: "string \<Rightarrow> string option" where
  "decode_status raw =
     (if startswith raw ''HTTP/1.1 '' \<and> startswith (rev raw) (rev ('' '' @ CRLFCRLF))
         \<and> 9 + 5 \<le> length raw
      then Some (take (length raw - 14) (drop 9 raw)) else None)"

section \<open>The request listener (HTTP.py, utils.py)\<close>

text \<open>
  \<open>utils.getSubstringFromList\<close>: the index of the first string of the list that
  contains the substring, \<open>-1\<close> when there is none. \<open>index_from\<close> is the loop over
  \<open>enumerate(strings)\<close> from position \<open>i\<close> on.
\<close>

fun index_from :: "int \<Rightarrow> string list \<Rightarrow> string \<Rightarrow> int" where
  "index_from i [] substring = - 1"
| "index_from i (s # strings) substring =
     (if contains substring s then i else index_from (i + 1) strings substring)"

definition getSubstringFromList :: "string list \<Rightarrow> string \<Rightarrow> int" where
  "getSubstringFromList strings substring = index_from 0 strings substring"

text \<open>
  The inner loop of \<open>listen\<close> that reads the request. The connection delivers the
  chunks of the list, one for each \<open>recv(1024)\<close>, and then the empty chunk of a
  closed stream. Each chunk is decoded and appended before the exit test
  \<open>end_of_request\<close> looks at its bytes; a chunk that does not decode ends the loop
  with UnicodeError.
\<close>

definition end_of_request :: "string \<Rightarrow> bool" where
  "end_of_request chunk = (chunk = [] \<or> chunk = CRLF \<or> contains CRLF chunk)"

fun recv_loop :: "string list \<Rightarrow> string \<Rightarrow> exn + string" where
  "recv_loop [] request = Inr request"
| "recv_loop (chunk # chunks) request =
     (case decode chunk of
        None \<Rightarrow> Inl UnicodeError
      | Some text \<Rightarrow>
          if end_of_request chunk then Inr (request @ text)
          else recv_loop chunks (request @ text))"

text \<open>
  \<open>headers, content = request.split("\r\n\r\n")\<close> followed by
  \<open>headers = headers.split("\r\n")\<close>: unpacking into two names raises ValueError
  unless the split has exactly two pieces.
\<close>

definition parse :: "string \<Rightarrow> exn + (string list \<times> string)" where
  "parse request =
     (case py_split request CRLFCRLF of
        [headers, content] \<Rightarrow> Inr (py_split headers CRLF, content)
      | _ \<Rightarrow> Inl ValueError)"

definition and_then :: "outcome \<Rightarrow> (listener \<Rightarrow> outcome) \<Rightarrow> outcome" where
  "and_then r f = (case r of Inl e \<Rightarrow> Inl e | Inr s \<Rightarrow> f s)"

text \<open>
  The lookup of the content type (the \<open>if index != -1\<close> statement). A slice never
  raises, so the handler for IndexError is dead code. The branch for a missing header
  sends 400 and goes on to the next statement: it has no \<open>continue\<close>.
\<close>

definition find_content_type :: "string list \<Rightarrow> listener \<Rightarrow> outcome" where
  "find_content_type headers s =
     (let index = getSubstringFromList headers ''Content-Type: '' in
      if index \<noteq> - 1
      then Inr (s\<lparr>content_type := Some (drop 14 (headers ! nat index))\<rparr>)
      else send 400 s)"

text \<open>
  \<open>json.loads\<close> belongs to the language's library and is a parameter \<open>loads\<close> of the
  model: \<open>None\<close> when it raises. The handler sends 500 and goes on to the next statement.
\<close>

definition load_json :: "(string \<Rightarrow> json option) \<Rightarrow> string \<Rightarrow> listener \<Rightarrow> outcome" where
  "load_json loads content s =
     (case loads content of
        Some v \<Rightarrow> Inr (s\<lparr>data := Some v\<rparr>)
      | None \<Rightarrow> send 500 s)"

text \<open>
  \<open>d[key]\<close> for a string key: KeyError on a dictionary without the key, TypeError
  on every value that is not a dictionary.
\<close>

fun subscript :: "json \<Rightarrow> string \<Rightarrow> exn + json" where
  "subscript (JDict items) key =
     (case map_of items key of None \<Rightarrow> Inl KeyError | Some v \<Rightarrow> Inr v)"
| "subscript _ key = Inl TypeError"

text \<open>\<open>if data["state"] == "alerting": alarm(self._buzzer, 5000, 500, 100)\<close>.\<close>

definition check_state :: "listener \<Rightarrow> outcome" where
  "check_state s =
     (case data s of
        None \<Rightarrow> Inl (NameError, s)
      | Some d \<Rightarrow>
          (case subscript d ''state'' of
             Inl e \<Rightarrow> Inl (e, s)
           | Inr v \<Rightarrow>
               if v = JStr ''alerting''
               then Inr (s\<lparr>events := events s @ [Alarm 5000 500 100]\<rparr>)
               else Inr s))"

text \<open>
  The end of the loop body, from \<open>json.loads\<close> on: load the body, look at the
  state, send 204.
\<close>

definition process_json :: "(string \<Rightarrow> json option) \<Rightarrow> string \<Rightarrow> listener \<Rightarrow> outcome" where
  "process_json loads content s =
     and_then (load_json loads content s) (\<lambda>s. and_then (check_state s) (send 204))"

text \<open>
  \<open>if content_type != "application/json"\<close> and what follows it. Reading a local that
  was never bound raises NameError.
\<close>

definition check_content_type ::
  "(string \<Rightarrow> json option) \<Rightarrow> string \<Rightarrow> listener \<Rightarrow> outcome" where
  "check_content_type loads content s =
     (case content_type s of
        None \<Rightarrow> Inl (NameError, s)
      | Some ct \<Rightarrow>
          if ct \<noteq> ''application/json'' then send 400 s
          else process_json loads content s)"

text \<open>The statements of the loop body that follow the parsing of the request.\<close>

definition dispatch ::
  "(string \<Rightarrow> json option) \<Rightarrow> string list \<Rightarrow> string \<Rightarrow> listener \<Rightarrow> outcome" where
  "dispatch loads headers content s =
     (case headers of
        [] \<Rightarrow> Inl (IndexError, s)
      | h # _ \<Rightarrow>
          if take 4 h \<noteq> ''POST'' then send 405 s
          else and_then (find_content_type headers s) (check_content_type loads content))"

text \<open>
  One iteration of the outer loop of \<open>listen\<close>: accept a connection, read the
  request, parse it and dispatch.
\<close>

definition serve :: "(string \<Rightarrow> json option) \<Rightarrow> string list \<Rightarrow> listener \<Rightarrow> outcome" where
  "serve loads chunks s =
     (let s1 = s\<lparr>closed := False, events := events s @ [Accepted]\<rparr> in
      case recv_loop chunks [] of
        Inl e \<Rightarrow> Inl (e, s1)
      | Inr request \<Rightarrow>
          (case parse request of
             Inl e \<Rightarrow> Inl (e, s1)
           | Inr (headers, content) \<Rightarrow> dispatch loads headers content s1))"

text \<open>
  \<open>listen\<close> on the connections that arrive, in order. The loop has no exit: \<open>Inr\<close>
  means that the listener is back at \<open>accept\<close>, \<open>Inl\<close> that an exception has ended it.
\<close>

fun listen :: "(string \<Rightarrow> json option) \<Rightarrow> string list list \<Rightarrow> listener \<Rightarrow> outcome" where
  "listen loads [] s = Inr s"
| "listen loads (chunks # conns) s = and_then (serve loads chunks s) (listen loads conns)"

definition start :: listener where
  "start = \<lparr>content_type = None, data = None, closed = False, events = []\<rparr>"

text \<open>
  The first token of the request line, after the words of the specification: the
  method of a request is the text before the first space of the first header line.
\<close>

definition method_token :: "string \<Rightarrow> string" where
  "method_token line = takeWhile (\<lambda>c. c \<noteq> CHR '' '') line"

text \<open>
  Example values of \<open>json.loads\<close>, for the bodies used in the examples below: the
  objects with state alerting and state idle, the empty object, and no value
  (an exception) for every other body.
\<close>

definition quoted :: "string \<Rightarrow> string" where
  "quoted s = DQ # s @ [DQ]"

definition alerting_body :: string where
  "alerting_body = ''{'' @ quoted ''state'' @ '':'' @ quoted ''alerting'' @ ''}''"

definition idle_body :: string where
  "idle_body = ''{'' @ quoted ''state'' @ '':'' @ quoted ''idle'' @ ''}''"

definition example_loads :: "string \<Rightarrow> json option" where
  "example_loads body =
     (if body = alerting_body then Some (JDict [(''state'', JStr ''alerting'')])
      else if body = idle_body then Some (JDict [(''state'', JStr ''idle'')])
      else if body = ''{}'' then Some (JDict [])
      else None)"

section \<open>The settings reader (utils.py)\<close>

text \<open>
  The values of the settings dictionary: \<open>None\<close>, booleans, integers and strings,
  and the three types that the schema names.
\<close>

datatype pyval = VNone | VBool bool | VInt int | VStr string

datatype pytype = TStr | TInt | TBool

text \<open>
  One entry of \<open>settings_model\<close>. The field \<open>regex\<close> holds the text of the pattern.
\<close>

record entry =
  type :: pytype
  required :: bool
  required_if :: "string option"
  default_value :: pyval
  regex :: "string option"

text \<open>
  The schema, in the order of its declaration, which is the order in which
  \<open>for i in settings_model\<close> visits it (dictionaries keep the order of insertion).
\<close>

definition settings_model :: "(string \<times> entry) list" where
  "settings_model =
    [(''SSID'', \<lparr>type = TStr, required = True, required_if = None,
        default_value = VNone, regex = None\<rparr>),
     (''KEY'', \<lparr>type = TStr, required = True, required_if = None,
        default_value = VNone, regex = None\<rparr>),
     (''MAX_CON'', \<lparr>type = TInt, required = False, required_if = None,
        default_value = VInt 5, regex = None\<rparr>),
     (''TIMEOUT'', \<lparr>type = TInt, required = False, required_if = None,
        default_value = VInt 10, regex = None\<rparr>),
     (''PORT'', \<lparr>type = TInt, required = False, required_if = None,
        default_value = VInt 80, regex = None\<rparr>),
     (''STATIC'', \<lparr>type = TBool, required = False, required_if = None,
        default_value = VBool False, regex = Some ''^(TRUE|FALSE)$''\<rparr>),
     (''ADDR'', \<lparr>type = TStr, required = False, required_if = Some ''STATIC'',
        default_value = VNone, regex = None\<rparr>),
     (''MASK'', \<lparr>type = TStr, required = False, required_if = Some ''STATIC'',
        default_value = VNone, regex = None\<rparr>),
     (''GATEWAY'', \<lparr>type = TStr, required = False, required_if = Some ''STATIC'',
        default_value = VNone, regex = None\<rparr>),
     (''ADDR_FAMILY'', \<lparr>type = TStr, required = False, required_if = Some ''STATIC'',
        default_value = VNone, regex = Some ''^(INET|INET6)$''\<rparr>)]"

type_synonym settings = "string \<rightharpoonup> pyval"

text \<open>
  The loop over the lines of the file: line breaks are removed, the line is split at
  every \<open>=\<close>, and the first two pieces are key and value when the key is in the
  schema. A line of a schema key without \<open>=\<close> has no second piece: IndexError.
\<close>

definition split_line :: "string \<Rightarrow> string list" where
  "split_line i = py_split (remove_char CR (remove_char LF i)) ''=''"

fun read_lines :: "string list \<Rightarrow> settings \<Rightarrow> exn + settings" where
  "read_lines [] settings = Inr settings"
| "read_lines (i # rest) settings =
     (case split_line i of
        [] \<Rightarrow> Inl IndexError
      | key # vals \<Rightarrow>
          if key \<in> set (map fst settings_model)
          then (case vals of
                  [] \<Rightarrow> Inl IndexError
                | v # _ \<Rightarrow> read_lines rest (settings(key \<mapsto> VStr v)))
          else read_lines rest settings)"

text \<open>The truth value of a settings value in a condition.\<close>

fun truthy :: "pyval \<Rightarrow> bool" where
  "truthy VNone = False"
| "truthy (VBool b) = b"
| "truthy (VInt n) = (n \<noteq> 0)"
| "truthy (VStr s) = (s \<noteq> [])"

text \<open>
  The library functions \<open>re.compile(p).match\<close> and \<open>int\<close> on strings are parameters
  of the model: \<open>re_match p s\<close> says whether the pattern matches, and \<open>to_int s\<close> is
  \<open>None\<close> when \<open>int(s)\<close> raises ValueError. On a value that is not a string,
  \<open>match\<close> raises TypeError and \<open>upper\<close> does not exist (AttributeError); the
  validation loop meets strings only, since each key is visited once.
\<close>

fun pattern_match :: "(string \<Rightarrow> string \<Rightarrow> bool) \<Rightarrow> string \<Rightarrow> pyval \<Rightarrow> exn + bool" where
  "pattern_match re_match p (VStr s) = Inr (re_match p s)"
| "pattern_match re_match p v = Inl TypeError"

text \<open>
  The conversion of a supplied value: \<open>settings[i].upper() == "TRUE"\<close> for a boolean
  entry, \<open>str(settings[i])\<close> or \<open>int(settings[i])\<close> otherwise, where a ValueError is
  fatal.
\<close>

fun py_str :: "pyval \<Rightarrow> string" where
  "py_str (VStr s) = s"
| "py_str (VInt n) = str_int n"
| "py_str (VBool b) = (if b then ''True'' else ''False'')"
| "py_str VNone = ''None''"

fun coerce :: "(string \<Rightarrow> int option) \<Rightarrow> string \<Rightarrow> pytype \<Rightarrow> pyval \<Rightarrow> exn + pyval" where
  "coerce to_int i TBool (VStr s) = Inr (VBool (upper s = ''TRUE''))"
| "coerce to_int i TBool v = Inl AttributeError"
| "coerce to_int i TStr v = Inr (VStr (py_str v))"
| "coerce to_int i TInt (VStr s) =
     (case to_int s of
        None \<Rightarrow> Inl (SystemExit (WrongType i))
      | Some n \<Rightarrow> Inr (VInt n))"
| "coerce to_int i TInt (VInt n) = Inr (VInt n)"
| "coerce to_int i TInt (VBool b) = Inr (VInt (if b then 1 else 0))"
| "coerce to_int i TInt VNone = Inl TypeError"

text \<open>The body of the validation loop for the schema key \<open>i\<close> with entry \<open>m\<close>.\<close>

definition validate_entry ::
  "(string \<Rightarrow> string \<Rightarrow> bool) \<Rightarrow> (string \<Rightarrow> int option) \<Rightarrow> string \<Rightarrow> entry
     \<Rightarrow> settings \<Rightarrow> exn + settings" where
  "validate_entry re_match to_int i m settings =
     (case settings i of
        Some v \<Rightarrow>
          (case (if type m = TStr
                 then (case regex m of
                         None \<Rightarrow> Inr True
                       | Some p \<Rightarrow> pattern_match re_match p v)
                 else Inr True) of
             Inl e \<Rightarrow> Inl e
           | Inr matched \<Rightarrow>
               if matched
               then (case coerce to_int i (type m) v of
                       Inl e \<Rightarrow> Inl e
                     | Inr v' \<Rightarrow> Inr (settings(i \<mapsto> v')))
               else Inl (SystemExit (RegexMismatch i)))
      | None \<Rightarrow>
          if required m then Inl (SystemExit (RequiredMissing i))
          else
            (case required_if m of
               None \<Rightarrow> Inr (settings(i \<mapsto> default_value m))
             | Some k \<Rightarrow>
                 if k = [] then Inr (settings(i \<mapsto> default_value m))
                 else
                   (case settings k of
                      None \<Rightarrow> Inl KeyError
                    | Some b \<Rightarrow>
                        if truthy b then Inl (SystemExit (RequiredIf i k))
                        else Inr (settings(i \<mapsto> default_value m)))))"

fun validate ::
  "(string \<Rightarrow> string \<Rightarrow> bool) \<Rightarrow> (string \<Rightarrow> int option) \<Rightarrow> (string \<times> entry) list
     \<Rightarrow> settings \<Rightarrow> exn + settings" where
  "validate re_match to_int [] settings = Inr settings"
| "validate re_match to_int ((i, m) # rest) settings =
     (case validate_entry re_match to_int i m settings of
        Inl e \<Rightarrow> Inl e
      | Inr settings' \<Rightarrow> validate re_match to_int rest settings')"

text \<open>
  \<open>readSettings\<close>. The argument is the list of the lines of \<open>settings.txt\<close>, or
  \<open>None\<close> when the directory has no such file.
\<close>

definition readSettings ::
  "(string \<Rightarrow> string \<Rightarrow> bool) \<Rightarrow> (string \<Rightarrow> int option) \<Rightarrow> string list option
     \<Rightarrow> exn + settings" where
  "readSettings re_match to_int file =
     (case file of
        None \<Rightarrow> Inl (SystemExit NoSettingsFile)
      | Some lines \<Rightarrow>
          (case read_lines lines Map.empty of
             Inl e \<Rightarrow> Inl e
           | Inr settings \<Rightarrow> validate re_match to_int settings_model settings))"



text \<open>
  The value that a line supplies, after the words of the specification: a line is
  split at its first \<open>=\<close>, and the value is all the text after it.
\<close>

definition value_after_first_equals :: "string \<Rightarrow> string" where
  "value_after_first_equals line = drop 1 (dropWhile (\<lambda>c. c \<noteq> CHR ''='') line)"

text \<open>The value that a result of \<open>readSettings\<close> holds for a key.\<close>

definition setting_of :: "exn + settings \<Rightarrow> string \<Rightarrow> exn + pyval option" where
  "setting_of r k = (case r of Inl e \<Rightarrow> Inl e | Inr settings \<Rightarrow> Inr (settings k))"

text \<open>
  Example library functions for the examples below: a pattern matcher that knows the
  two patterns of the schema, and a reader of unsigned decimal numbers.
\<close>

definition example_match :: "string \<Rightarrow> string \<Rightarrow> bool" where
  "example_match p s =
     (if p = ''^(TRUE|FALSE)$'' then s = ''TRUE'' \<or> s = ''FALSE''
      else if p = ''^(INET|INET6)$'' then s = ''INET'' \<or> s = ''INET6''
      else False)"

fun digits_value :: "string \<Rightarrow> nat \<Rightarrow> nat option" where
  "digits_value [] acc = Some acc"
| "digits_value (c # cs) acc =
     (if (48::nat) \<le> of_char c \<and> of_char c \<le> (57::nat)
      then digits_value cs (10 * acc + (of_char c - 48))
      else None)"

definition example_int :: "string \<Rightarrow> int option" where
  "example_int s = (if s = [] then None else map_option int (digits_value s 0))"

section \<open>Properties of the response encoder\<close>

lemma startswith_append [simp]: "startswith (p @ s) p"
  by (induction p) auto

lemma decode_status_encode:
  "decode_status (''HTTP/1.1 '' @ x @ '' '' @ CRLFCRLF) = Some x"
proof -
  have a: "startswith (''HTTP/1.1 '' @ x @ '' '' @ CRLFCRLF) ''HTTP/1.1 ''"
    by (rule startswith_append)
  have "rev (''HTTP/1.1 '' @ x @ '' '' @ CRLFCRLF)
          = rev ('' '' @ CRLFCRLF) @ rev x @ rev ''HTTP/1.1 ''"
    by simp
  then have b: "startswith (rev (''HTTP/1.1 '' @ x @ '' '' @ CRLFCRLF)) (rev ('' '' @ CRLFCRLF))"
    by (simp only: startswith_append)
  have c: "length (''HTTP/1.1 '' @ x @ '' '' @ CRLFCRLF) = length x + 14"
    by (simp add: CRLFCRLF_def)
  have d: "drop 9 (''HTTP/1.1 '' @ x @ '' '' @ CRLFCRLF) = x @ '' '' @ CRLFCRLF"
    by simp
  show ?thesis
    unfolding decode_status_def using a b by (simp only: c d) simp
qed

text \<open>
  C7. For every status code of the table, \<open>_send\<close> on an open connection writes the one
  text \<open>HTTP/1.1 code reason\<close>, a space and two line terminators, with nothing after
  it, and closes the connection; reading that text back gives the code in decimal, a
  space and the reason phrase of the table. For code 204 this is \<open>204 No Content\<close>.
\<close>

theorem send_roundtrip:
  assumes "(code, reason) \<in> set CODES" and "\<not> closed s"
  shows "\<exists>raw. send code s = Inr (s\<lparr>closed := True, events := events s @ [Sent raw, Closed]\<rparr>)
           \<and> raw = ''HTTP/1.1 '' @ str_int code @ '' '' @ reason @ '' '' @ CRLFCRLF
           \<and> decode_status raw = Some (str_int code @ '' '' @ reason)
           \<and> (code = 204 \<longrightarrow> decode_status raw = Some ''204 No Content'')"
proof -
  have dist: "distinct (map fst CODES)"
    by (simp add: CODES_def)
  from assms(1) dist have look: "map_of CODES code = Some reason"
    by (rule map_of_is_SomeI [OF _ _, rotated])
  have line: "status_line code reason = ''HTTP/1.1 '' @ str_int code @ '' '' @ reason @ '' '' @ CRLFCRLF"
    by (simp add: status_line_def CRLF_def CRLFCRLF_def)
  have dec: "decode_status (status_line code reason) = Some (str_int code @ '' '' @ reason)"
    unfolding line using decode_status_encode [of "str_int code @ '' '' @ reason"] by simp
  have ex: "code = 204 \<longrightarrow> str_int code @ '' '' @ reason = ''204 No Content''"
  proof
    assume c: "code = 204"
    from look c have "reason = ''No Content''"
      by (simp add: CODES_def)
    moreover have "str_int 204 = ''204''"
      by (simp add: str_int_def str_nat.simps)
    ultimately show "str_int code @ '' '' @ reason = ''204 No Content''"
      using c by simp
  qed
  have snd: "send code s
      = Inr (s\<lparr>closed := True, events := events s @ [Sent (status_line code reason), Closed]\<rparr>)"
    using look assms(2) by (simp add: send_def)
  from dec ex have ex': "code = 204 \<longrightarrow> decode_status (status_line code reason) = Some ''204 No Content''"
    by (simp only:) simp
  from snd line dec ex' show ?thesis
    by blast
qed

theorem send_roundtrip_witness:
  "(204, ''No Content'') \<in> set CODES
   \<and> \<not> closed \<lparr>content_type = None, data = None, closed = False, events = [Accepted]\<rparr>
   \<and> send 204 \<lparr>content_type = None, data = None, closed = False, events = [Accepted]\<rparr>
       = Inr \<lparr>content_type = None, data = None, closed = True,
              events = [Accepted, Sent (''HTTP/1.1 204 No Content '' @ CRLFCRLF), Closed]\<rparr>
   \<and> decode_status (''HTTP/1.1 204 No Content '' @ CRLFCRLF) = Some ''204 No Content''"
proof -
  have h1: "(204, ''No Content'') \<in> set CODES"
    by (simp add: CODES_def)
  have h2: "\<not> closed \<lparr>content_type = None, data = None, closed = False, events = [Accepted]\<rparr>"
    by simp
  have s: "str_int 204 = ''204''"
    by (simp add: str_int_def str_nat.simps)
  show ?thesis
    using send_roundtrip [OF h1 h2] h1 s by simp
qed

section \<open>Properties of the request listener\<close>

lemma split_from_not_Nil: "split_from sep cur s \<noteq> []"
  by (induction sep cur s rule: split_from.induct) (subst split_from.simps, simp)

lemma parse_headers_not_Nil: "parse request = Inr (headers, content) \<Longrightarrow> headers \<noteq> []"
  by (auto simp: parse_def py_split_def split_from_not_Nil split: list.splits)

lemma index_from_first:
  "\<forall>h\<in>set pre. \<not> contains sub h \<Longrightarrow> contains sub x \<Longrightarrow>
     index_from i (pre @ x # post) sub = i + int (length pre)"
  by (induction pre arbitrary: i) auto

lemma index_from_none:
  "\<forall>h\<in>set hs. \<not> contains sub h \<Longrightarrow> index_from i hs sub = - 1"
  by (induction hs arbitrary: i) auto

lemma status_204: "status_line 204 ''No Content'' = ''HTTP/1.1 204 No Content '' @ CRLFCRLF"
  by (simp add: status_line_def str_int_def str_nat.simps CRLF_def CRLFCRLF_def)

lemma status_405: "status_line 405 ''Method Not Allowed'' = ''HTTP/1.1 405 Method Not Allowed '' @ CRLFCRLF"
  by (simp add: status_line_def str_int_def str_nat.simps CRLF_def CRLFCRLF_def)

lemma status_400: "status_line 400 ''Bad Request'' = ''HTTP/1.1 400 Bad Request '' @ CRLFCRLF"
  by (simp add: status_line_def str_int_def str_nat.simps CRLF_def CRLFCRLF_def)

lemma status_500: "status_line 500 ''Internal Server Error'' = ''HTTP/1.1 500 Internal Server Error '' @ CRLFCRLF"
  by (simp add: status_line_def str_int_def str_nat.simps CRLF_def CRLFCRLF_def)

lemma send_204: "send 204 s = (if closed s then Inl (OSError, s) else
   Inr (s\<lparr>closed := True, events := events s @ [Sent (''HTTP/1.1 204 No Content '' @ CRLFCRLF), Closed]\<rparr>))"
  by (simp add: send_def CODES_def status_204)

lemma send_405: "send 405 s = (if closed s then Inl (OSError, s) else
   Inr (s\<lparr>closed := True, events := events s @ [Sent (''HTTP/1.1 405 Method Not Allowed '' @ CRLFCRLF), Closed]\<rparr>))"
  by (simp add: send_def CODES_def status_405)

lemma send_400: "send 400 s = (if closed s then Inl (OSError, s) else
   Inr (s\<lparr>closed := True, events := events s @ [Sent (''HTTP/1.1 400 Bad Request '' @ CRLFCRLF), Closed]\<rparr>))"
  by (simp add: send_def CODES_def status_400)

lemma send_500: "send 500 s = (if closed s then Inl (OSError, s) else
   Inr (s\<lparr>closed := True, events := events s @ [Sent (''HTTP/1.1 500 Internal Server Error '' @ CRLFCRLF), Closed]\<rparr>))"
  by (simp add: send_def CODES_def status_500)

lemma method_token_POST: "method_token h = ''POST'' \<Longrightarrow> take 4 h = ''POST''"
proof -
  assume a: "method_token h = ''POST''"
  then have len: "length (takeWhile (\<lambda>c. c \<noteq> CHR '' '') h) = 4"
    by (simp add: method_token_def)
  have "takeWhile (\<lambda>c. c \<noteq> CHR '' '') h = take (length (takeWhile (\<lambda>c. c \<noteq> CHR '' '') h)) h"
    by (rule takeWhile_eq_take)
  then have "takeWhile (\<lambda>c. c \<noteq> CHR '' '') h = take 4 h"
    by (simp only: len)
  with a show ?thesis
    by (simp only: method_token_def)
qed

lemma contains_ct: "contains ''Content-Type: '' ''Content-Type: application/json''"
  by simp

lemmas listener_eval = byte_def continuation_def decode_def CRLF_def CRLFCRLF_def CR_def LF_def DQ_def quoted_def alerting_body_def idle_body_def example_loads_def
  serve_def parse_def py_split_def split_from.simps dispatch_def check_content_type_def process_json_def and_then_def find_content_type_def getSubstringFromList_def
  load_json_def check_state_def send_def status_line_def str_int_def str_nat.simps CODES_def start_def end_of_request_def

lemma check_state_closed: "check_state s = Inr s' \<Longrightarrow> closed s' = closed s"
  by (auto simp: check_state_def split: option.splits sum.splits if_splits)

lemma process_json_closed:
  assumes "closed s"
  shows "process_json loads content s \<noteq> Inr s'"
proof
  assume a: "process_json loads content s = Inr s'"
  then obtain s1 s2 where l: "load_json loads content s = Inr s1"
      and c: "check_state s1 = Inr s2" and f: "send 204 s2 = Inr s'"
    by (auto simp: process_json_def and_then_def split: sum.splits)
  from l assms have "closed s1"
    by (auto simp: load_json_def send_500 split: option.splits)
  with c have "closed s2"
    by (simp add: check_state_closed)
  with f show False
    by (simp add: send_204)
qed

lemma process_json_events:
  assumes "process_json loads content s = Inr s'"
  shows "\<exists>evs. events s' = evs @ [Sent (''HTTP/1.1 204 No Content '' @ CRLFCRLF), Closed]"
proof -
  from assms obtain s2 where f: "send 204 s2 = Inr s'"
    by (auto simp: process_json_def and_then_def split: sum.splits)
  then have "events s' = events s2 @ [Sent (''HTTP/1.1 204 No Content '' @ CRLFCRLF), Closed]"
    by (auto simp: send_204 split: if_splits)
  then show ?thesis
    by blast
qed

lemma check_content_type_closed:
  "closed s \<Longrightarrow> check_content_type loads content s \<noteq> Inr s'"
  by (auto simp: check_content_type_def send_400 process_json_closed split: option.splits)

lemma check_content_type_events:
  assumes "check_content_type loads content s = Inr s'"
  shows "\<exists>evs. events s' = evs @ [Sent (''HTTP/1.1 204 No Content '' @ CRLFCRLF), Closed]
            \<or> events s' = evs @ [Sent (''HTTP/1.1 400 Bad Request '' @ CRLFCRLF), Closed]"
proof (cases "content_type s")
  case None
  with assms show ?thesis
    by (simp add: check_content_type_def)
next
  case (Some ct)
  show ?thesis
  proof (cases "ct = ''application/json''")
    case True
    with Some assms have "process_json loads content s = Inr s'"
      by (simp add: check_content_type_def)
    from process_json_events [OF this] show ?thesis
      by blast
  next
    case False
    with Some assms have "send 400 s = Inr s'"
      by (simp add: check_content_type_def)
    then have "events s' = events s @ [Sent (''HTTP/1.1 400 Bad Request '' @ CRLFCRLF), Closed]"
      by (auto simp: send_400 split: if_splits)
    then show ?thesis
      by blast
  qed
qed

lemma post_not_405:
  assumes "take 4 h = ''POST''"
  shows "dispatch loads (h # rest) content s \<noteq>
     Inr (t\<lparr>closed := True,
             events := evs @ [Sent (''HTTP/1.1 405 Method Not Allowed '' @ CRLFCRLF), Closed]\<rparr>)"
proof
  let ?r = "t\<lparr>closed := True,
             events := evs @ [Sent (''HTTP/1.1 405 Method Not Allowed '' @ CRLFCRLF), Closed]\<rparr>"
  assume "dispatch loads (h # rest) content s = Inr ?r"
  with assms obtain s1 where c: "check_content_type loads content s1 = Inr ?r"
    by (auto simp: dispatch_def and_then_def split: sum.splits)
  from check_content_type_events [OF c] obtain evs' where
    "events ?r = evs' @ [Sent (''HTTP/1.1 204 No Content '' @ CRLFCRLF), Closed]
       \<or> events ?r = evs' @ [Sent (''HTTP/1.1 400 Bad Request '' @ CRLFCRLF), Closed]"
    by blast
  then have "''HTTP/1.1 405 Method Not Allowed '' @ CRLFCRLF = ''HTTP/1.1 204 No Content '' @ CRLFCRLF
       \<or> ''HTTP/1.1 405 Method Not Allowed '' @ CRLFCRLF = ''HTTP/1.1 400 Bad Request '' @ CRLFCRLF"
    by simp
  then show False
    by simp
qed

text \<open>
  C1, as amended. A connection whose chunks are read and parsed into header lines and
  a body, delivering a POST request (the method of the request line is \<open>POST\<close>)
  whose first header line containing \<open>Content-Type: \<close> is exactly
  \<open>Content-Type: application/json\<close>, and whose body \<open>json.loads\<close> turns into the
  dictionary with state alerting: the buzzer is run exactly once, with 5000, 500 and
  100, and then 204 is sent and the connection closed.
\<close>

theorem alerting_request:
  assumes "recv_loop chunks [] = Inr request"
    and "parse request = Inr (headers, content)"
    and "method_token (hd headers) = ''POST''"
    and "headers = pre @ ''Content-Type: application/json'' # post"
    and "\<forall>h\<in>set pre. \<not> contains ''Content-Type: '' h"
    and "loads content = Some (JDict [(''state'', JStr ''alerting'')])"
  shows "serve loads chunks s =
     Inr \<lparr>content_type = Some ''application/json'',
          data = Some (JDict [(''state'', JStr ''alerting'')]),
          closed = True,
          events = events s @ [Accepted, Alarm 5000 500 100,
                               Sent (''HTTP/1.1 204 No Content '' @ CRLFCRLF), Closed]\<rparr>"
proof -
  from assms(2) have ne: "headers \<noteq> []"
    by (rule parse_headers_not_Nil)
  then obtain h rest where hs: "headers = h # rest"
    by (cases headers) auto
  with assms(3) have "method_token h = ''POST''"
    by simp
  then have post: "take 4 h = ''POST''"
    by (rule method_token_POST)
  have idx: "getSubstringFromList headers ''Content-Type: '' = int (length pre)"
    unfolding getSubstringFromList_def assms(4)
    using index_from_first [OF assms(5) contains_ct, of 0 post] by simp
  have nth: "headers ! length pre = ''Content-Type: application/json''"
    by (simp add: assms(4))
  let ?s1 = "s\<lparr>closed := False, events := events s @ [Accepted]\<rparr>"
  have fct: "find_content_type headers ?s1 = Inr (?s1\<lparr>content_type := Some ''application/json''\<rparr>)"
    by (simp add: find_content_type_def idx nth)
  have "dispatch loads headers content ?s1 =
     Inr \<lparr>content_type = Some ''application/json'',
          data = Some (JDict [(''state'', JStr ''alerting'')]),
          closed = True,
          events = events s @ [Accepted, Alarm 5000 500 100,
                               Sent (''HTTP/1.1 204 No Content '' @ CRLFCRLF), Closed]\<rparr>"
    using fct unfolding hs
    by (simp add: dispatch_def check_content_type_def process_json_def post and_then_def
          load_json_def assms(6) check_state_def send_204)
  then show ?thesis
    by (simp add: serve_def assms(1,2))
qed

theorem alerting_request_witness:
  "serve example_loads
     [''POST /alarm HTTP/1.1'' @ CRLF @ ''Host: esp'' @ CRLF @ ''Content-Type: application/json''
        @ CRLFCRLF @ alerting_body] start =
   Inr \<lparr>content_type = Some ''application/json'',
        data = Some (JDict [(''state'', JStr ''alerting'')]),
        closed = True,
        events = [Accepted, Alarm 5000 500 100,
                  Sent (''HTTP/1.1 204 No Content '' @ CRLFCRLF), Closed]\<rparr>"
proof -
  let ?request = "''POST /alarm HTTP/1.1'' @ CRLF @ ''Host: esp'' @ CRLF
        @ ''Content-Type: application/json'' @ CRLFCRLF @ alerting_body"
  let ?headers = "[''POST /alarm HTTP/1.1'', ''Host: esp'', ''Content-Type: application/json'']"
  have h1: "recv_loop [?request] [] = Inr ?request"
    by (simp add: listener_eval)
  have h2: "parse ?request = Inr (?headers, alerting_body)"
    by (simp add: listener_eval)
  have h3: "method_token (hd ?headers) = ''POST''"
    by (simp add: method_token_def)
  have h4: "?headers = [''POST /alarm HTTP/1.1'', ''Host: esp''] @ ''Content-Type: application/json'' # []"
    by simp
  have h5: "\<forall>h\<in>set [''POST /alarm HTTP/1.1'', ''Host: esp'']. \<not> contains ''Content-Type: '' h"
    by simp
  have h6: "example_loads alerting_body = Some (JDict [(''state'', JStr ''alerting'')])"
    by (simp add: example_loads_def)
  show ?thesis
    using alerting_request [where headers = ?headers and pre = "[''POST /alarm HTTP/1.1'', ''Host: esp'']"
        and post = "[]" and loads = example_loads and s = start, OF h1 h2 h3 h4 h5 h6]
    by (simp add: start_def)
qed

text \<open>
  C1 as stated fails: the request below is a POST request, its header lines contain
  the line \<open>Content-Type: application/json\<close> and its body is the alerting object, but
  an earlier line contains \<open>Content-Type: \<close> too; the lookup takes that first line,
  cuts its first 14 characters off, and the answer is 400 with no buzzer.
\<close>

theorem first_content_type_line_counterexample:
  "recv_loop
     [''POST /alarm HTTP/1.1'' @ CRLF @ ''X-Forwarded-Content-Type: text/plain'' @ CRLF
        @ ''Content-Type: application/json'' @ CRLFCRLF @ alerting_body] []
     = Inr (''POST /alarm HTTP/1.1'' @ CRLF @ ''X-Forwarded-Content-Type: text/plain'' @ CRLF
        @ ''Content-Type: application/json'' @ CRLFCRLF @ alerting_body)
   \<and> parse (''POST /alarm HTTP/1.1'' @ CRLF @ ''X-Forwarded-Content-Type: text/plain'' @ CRLF
        @ ''Content-Type: application/json'' @ CRLFCRLF @ alerting_body)
     = Inr ([''POST /alarm HTTP/1.1'', ''X-Forwarded-Content-Type: text/plain'',
             ''Content-Type: application/json''], alerting_body)
   \<and> method_token ''POST /alarm HTTP/1.1'' = ''POST''
   \<and> example_loads alerting_body = Some (JDict [(''state'', JStr ''alerting'')])
   \<and> serve example_loads
     [''POST /alarm HTTP/1.1'' @ CRLF @ ''X-Forwarded-Content-Type: text/plain'' @ CRLF
        @ ''Content-Type: application/json'' @ CRLFCRLF @ alerting_body] start =
   Inr \<lparr>content_type = Some ''ntent-Type: text/plain'', data = None, closed = True,
        events = [Accepted, Sent (''HTTP/1.1 400 Bad Request '' @ CRLFCRLF), Closed]\<rparr>"
  by (simp add: listener_eval method_token_def)

text \<open>
  C2 fails on the code. A POST request without a content type header is answered with
  400, but that branch has no \<open>continue\<close> (the branches for 405 and for a wrong
  content type have one): the next statement reads \<open>content_type\<close>, which a
  listener that has not yet seen a content type never bound, and the NameError ends
  \<open>listen\<close>. The second connection is never accepted.
\<close>

theorem missing_content_type_ends_listener:
  "listen example_loads
     [[''POST /alarm HTTP/1.1'' @ CRLF @ ''Host: esp'' @ CRLFCRLF @ idle_body],
      [''POST /alarm HTTP/1.1'' @ CRLF @ ''Content-Type: application/json''
        @ CRLFCRLF @ alerting_body]] start =
   Inl (NameError,
        \<lparr>content_type = None, data = None, closed = True,
         events = [Accepted, Sent (''HTTP/1.1 400 Bad Request '' @ CRLFCRLF), Closed]\<rparr>)"
  by (simp add: listener_eval)

text \<open>
  The same branch once \<open>content_type\<close> is bound by an earlier request: the request is
  answered with 400, the stale content type lets it through, the buzzer runs, and
  sending 204 on the closed connection ends \<open>listen\<close>.
\<close>

lemma stale_content_type_alarm:
  "listen example_loads
     [[''POST /alarm HTTP/1.1'' @ CRLF @ ''Content-Type: application/json''
        @ CRLFCRLF @ idle_body],
      [''POST /alarm HTTP/1.1'' @ CRLF @ ''Host: esp'' @ CRLFCRLF @ alerting_body]] start =
   Inl (OSError,
        \<lparr>content_type = Some ''application/json'',
         data = Some (JDict [(''state'', JStr ''alerting'')]), closed = True,
         events = [Accepted, Sent (''HTTP/1.1 204 No Content '' @ CRLFCRLF), Closed,
                   Accepted, Sent (''HTTP/1.1 400 Bad Request '' @ CRLFCRLF), Closed,
                   Alarm 5000 500 100]\<rparr>)"
  by (simp add: listener_eval)

text \<open>
  In general: a POST request with no header line that contains \<open>Content-Type: \<close>
  always ends \<open>listen\<close> with an exception, after the 400 was sent.
\<close>

lemma no_content_type_raises:
  assumes "parse request = Inr (headers, content)"
    and "take 4 (hd headers) = ''POST''"
    and "\<forall>h\<in>set headers. \<not> contains ''Content-Type: '' h"
    and rd: "recv_loop chunks [] = Inr request"
  shows "\<exists>e s'. serve loads chunks s = Inl (e, s')"
proof -
  from assms(1) have ne: "headers \<noteq> []"
    by (rule parse_headers_not_Nil)
  then obtain h rest where hs: "headers = h # rest"
    by (cases headers) auto
  with assms(2) have post: "take 4 h = ''POST''"
    by simp
  let ?s1 = "s\<lparr>closed := False, events := events s @ [Accepted]\<rparr>"
  let ?s2 = "?s1\<lparr>closed := True,
      events := events ?s1 @ [Sent (''HTTP/1.1 400 Bad Request '' @ CRLFCRLF), Closed]\<rparr>"
  have "getSubstringFromList headers ''Content-Type: '' = - 1"
    unfolding getSubstringFromList_def using assms(3) by (rule index_from_none)
  then have fct: "find_content_type headers ?s1 = Inr ?s2"
    by (simp add: find_content_type_def send_400)
  have "closed ?s2"
    by simp
  then have "\<And>s'. check_content_type loads content ?s2 \<noteq> Inr s'"
    by (rule check_content_type_closed)
  then obtain e s' where "check_content_type loads content ?s2 = Inl (e, s')"
    by (cases "check_content_type loads content ?s2") auto
  with fct have "dispatch loads headers content ?s1 = Inl (e, s')"
    unfolding hs by (simp add: dispatch_def post and_then_def)
  then show ?thesis
    by (simp add: serve_def assms(1) rd)
qed

text \<open>
  C3 fails on the code for a body without a state field: \<open>data["state"]\<close> raises
  KeyError on the empty object, nothing is sent and \<open>listen\<close> ends.
\<close>

theorem missing_state_raises:
  "serve example_loads
     [''POST /alarm HTTP/1.1'' @ CRLF @ ''Content-Type: application/json'' @ CRLFCRLF @ ''{}'']
     start =
   Inl (KeyError,
        \<lparr>content_type = Some ''application/json'', data = Some (JDict []), closed = False,
         events = [Accepted]\<rparr>)"
  by (simp add: listener_eval)

text \<open>
  In general: every body that \<open>json.loads\<close> turns into a dictionary without the
  key \<open>state\<close> ends \<open>listen\<close> with KeyError, and nothing is sent.
\<close>

lemma no_state_field_raises:
  assumes "parse request = Inr (headers, content)"
    and "take 4 (hd headers) = ''POST''"
    and "headers = pre @ ''Content-Type: application/json'' # post"
    and "\<forall>h\<in>set pre. \<not> contains ''Content-Type: '' h"
    and "loads content = Some (JDict items)"
    and "map_of items ''state'' = None"
    and rd: "recv_loop chunks [] = Inr request"
  shows "serve loads chunks s =
     Inl (KeyError,
          \<lparr>content_type = Some ''application/json'', data = Some (JDict items), closed = False,
           events = events s @ [Accepted]\<rparr>)"
proof -
  from assms(1) have ne: "headers \<noteq> []"
    by (rule parse_headers_not_Nil)
  then obtain h rest where hs: "headers = h # rest"
    by (cases headers) auto
  with assms(2) have post: "take 4 h = ''POST''"
    by simp
  have idx: "getSubstringFromList headers ''Content-Type: '' = int (length pre)"
    unfolding getSubstringFromList_def assms(3)
    using index_from_first [OF assms(4) contains_ct, of 0 post] by simp
  have nth: "headers ! length pre = ''Content-Type: application/json''"
    by (simp add: assms(3))
  let ?s1 = "s\<lparr>closed := False, events := events s @ [Accepted]\<rparr>"
  have fct: "find_content_type headers ?s1 = Inr (?s1\<lparr>content_type := Some ''application/json''\<rparr>)"
    by (simp add: find_content_type_def idx nth)
  have "dispatch loads headers content ?s1 =
     Inl (KeyError,
          \<lparr>content_type = Some ''application/json'', data = Some (JDict items), closed = False,
           events = events s @ [Accepted]\<rparr>)"
    using fct unfolding hs
    by (simp add: dispatch_def check_content_type_def process_json_def post and_then_def
          load_json_def assms(5,6) check_state_def)
  then show ?thesis
    by (simp add: serve_def assms(1) rd)
qed

text \<open>
  The other half of C3 holds: a state that is not alerting gives 204 and no buzzer.
\<close>

lemma other_state_no_alarm:
  assumes "parse request = Inr (headers, content)"
    and "take 4 (hd headers) = ''POST''"
    and "headers = pre @ ''Content-Type: application/json'' # post"
    and "\<forall>h\<in>set pre. \<not> contains ''Content-Type: '' h"
    and "loads content = Some (JDict items)"
    and "map_of items ''state'' = Some v" and "v \<noteq> JStr ''alerting''"
    and rd: "recv_loop chunks [] = Inr request"
  shows "serve loads chunks s =
     Inr \<lparr>content_type = Some ''application/json'', data = Some (JDict items), closed = True,
          events = events s @ [Accepted, Sent (''HTTP/1.1 204 No Content '' @ CRLFCRLF), Closed]\<rparr>"
proof -
  from assms(1) have ne: "headers \<noteq> []"
    by (rule parse_headers_not_Nil)
  then obtain h rest where hs: "headers = h # rest"
    by (cases headers) auto
  with assms(2) have post: "take 4 h = ''POST''"
    by simp
  have idx: "getSubstringFromList headers ''Content-Type: '' = int (length pre)"
    unfolding getSubstringFromList_def assms(3)
    using index_from_first [OF assms(4) contains_ct, of 0 post] by simp
  have nth: "headers ! length pre = ''Content-Type: application/json''"
    by (simp add: assms(3))
  let ?s1 = "s\<lparr>closed := False, events := events s @ [Accepted]\<rparr>"
  have fct: "find_content_type headers ?s1 = Inr (?s1\<lparr>content_type := Some ''application/json''\<rparr>)"
    by (simp add: find_content_type_def idx nth)
  have "dispatch loads headers content ?s1 =
     Inr \<lparr>content_type = Some ''application/json'', data = Some (JDict items), closed = True,
          events = events s @ [Accepted, Sent (''HTTP/1.1 204 No Content '' @ CRLFCRLF), Closed]\<rparr>"
    using fct unfolding hs
    by (simp add: dispatch_def check_content_type_def process_json_def post and_then_def load_json_def assms(5,6,7) check_state_def send_204)
  then show ?thesis
    by (simp add: serve_def assms(1) rd)
qed

text \<open>
  C4 fails on the code for a body that contains the blank-line marker: the text is
  split at every marker, the unpacking into two names raises ValueError, nothing is
  sent and \<open>listen\<close> ends. (The body below is valid JSON: line terminators are
  white space.)
\<close>

theorem marker_in_body_raises:
  "parse (''POST /alarm HTTP/1.1'' @ CRLF @ ''Content-Type: application/json'' @ CRLFCRLF
          @ ''{'' @ quoted ''state'' @ '':'' @ CRLFCRLF @ quoted ''alerting'' @ ''}'')
     = Inl ValueError
   \<and> serve example_loads
       [''POST /alarm HTTP/1.1'' @ CRLF @ ''Content-Type: application/json'' @ CRLFCRLF
          @ ''{'' @ quoted ''state'' @ '':'' @ CRLFCRLF @ quoted ''alerting'' @ ''}''] start
     = Inl (ValueError,
            \<lparr>content_type = None, data = None, closed = False, events = [Accepted]\<rparr>)"
  by (simp add: listener_eval)

text \<open>
  C5 fails on the code: the exit test looks for the line terminator, not for the
  blank-line marker, so a first chunk that holds the request line only ends the
  reading; the rest of the request is never read and the parsing raises ValueError.
\<close>

theorem header_line_chunk_ends_reading:
  "end_of_request (''POST /alarm HTTP/1.1'' @ CRLF)
   \<and> \<not> contains CRLFCRLF (''POST /alarm HTTP/1.1'' @ CRLF)
   \<and> recv_loop [''POST /alarm HTTP/1.1'' @ CRLF,
                 ''Content-Type: application/json'' @ CRLFCRLF @ alerting_body] []
       = Inr (''POST /alarm HTTP/1.1'' @ CRLF)
   \<and> serve example_loads
        [''POST /alarm HTTP/1.1'' @ CRLF,
         ''Content-Type: application/json'' @ CRLFCRLF @ alerting_body] start
       = Inl (ValueError,
              \<lparr>content_type = None, data = None, closed = False, events = [Accepted]\<rparr>)"
  by (simp add: listener_eval)

text \<open>The exit test of the reading loop, in full.\<close>

lemma end_of_request_iff: "end_of_request chunk = (chunk = [] \<or> contains CRLF chunk)"
  by (auto simp: end_of_request_def CRLF_def)

text \<open>
  C6 fails on the code. The test is on the first four characters of the first header
  line, not on the method: the method of the request below is \<open>POSTER\<close>, not
  \<open>POST\<close>, and the request is not answered with 405 but processed to the end, with
  the buzzer run and 204 sent.
\<close>

theorem poster_request_is_processed:
  "method_token ''POSTER /alarm HTTP/1.1'' = ''POSTER''
   \<and> serve example_loads
     [''POSTER /alarm HTTP/1.1'' @ CRLF @ ''Content-Type: application/json''
        @ CRLFCRLF @ alerting_body] start =
   Inr \<lparr>content_type = Some ''application/json'',
        data = Some (JDict [(''state'', JStr ''alerting'')]),
        closed = True,
        events = [Accepted, Alarm 5000 500 100,
                  Sent (''HTTP/1.1 204 No Content '' @ CRLFCRLF), Closed]\<rparr>"
  by (simp add: listener_eval method_token_def)

text \<open>
  What the test does decide: a request that is read and parsed is answered with 405,
  with nothing else done and the locals of the listener unchanged, exactly when the
  first four characters of its first header line are not \<open>POST\<close>. In particular a
  request whose method is not \<open>POST\<close> and does not begin with it gets 405.
\<close>

lemma first_four_characters_decide:
  assumes "parse request = Inr (headers, content)"
    and "recv_loop chunks [] = Inr request"
  shows "(take 4 (hd headers) \<noteq> ''POST'') =
     (serve loads chunks s =
        Inr (s\<lparr>closed := True,
               events := events s @ [Accepted,
                   Sent (''HTTP/1.1 405 Method Not Allowed '' @ CRLFCRLF), Closed]\<rparr>))"
proof -
  from assms(1) have "headers \<noteq> []"
    by (rule parse_headers_not_Nil)
  then obtain h rest where hs: "headers = h # rest"
    by (cases headers) auto
  let ?s1 = "s\<lparr>closed := False, events := events s @ [Accepted]\<rparr>"
  have sv: "serve loads chunks s = dispatch loads headers content ?s1"
    by (simp add: serve_def assms)
  show ?thesis
  proof (cases "take 4 h = ''POST''")
    case False
    then show ?thesis
      by (simp add: sv hs dispatch_def send_405)
  next
    case True
    from post_not_405 [OF True, where loads = loads and rest = rest and content = content
        and s = ?s1 and t = s and evs = "events s @ [Accepted]"]
    have "dispatch loads headers content ?s1 \<noteq>
       Inr (s\<lparr>closed := True,
               events := events s @ [Accepted,
                   Sent (''HTTP/1.1 405 Method Not Allowed '' @ CRLFCRLF), Closed]\<rparr>)"
      by (simp add: hs)
    with True show ?thesis
      by (simp add: sv hs)
  qed
qed

lemma get_request_rejected:
  "serve example_loads
     [''GET /alarm HTTP/1.1'' @ CRLF @ ''Content-Type: application/json'' @ CRLFCRLF @ alerting_body]
     start =
   Inr \<lparr>content_type = None, data = None, closed = True,
        events = [Accepted, Sent (''HTTP/1.1 405 Method Not Allowed '' @ CRLFCRLF), Closed]\<rparr>"
  by (simp add: listener_eval)

section \<open>Properties of the settings reader\<close>

lemma validate_entry_upd:
  assumes "validate_entry rm ti i m st = Inr st'"
  shows "\<exists>v. st' = st(i \<mapsto> v)"
  using assms unfolding validate_entry_def
  by (auto split: option.splits sum.splits if_splits)

lemma validate_entry_value:
  assumes "validate_entry rm ti i m st = Inr st'"
  shows "st' i = (case st i of
                    None \<Rightarrow> Some (default_value m)
                  | Some v \<Rightarrow> (case coerce ti i (type m) v of Inl e \<Rightarrow> None | Inr v' \<Rightarrow> Some v'))"
  using assms unfolding validate_entry_def
  by (auto split: option.splits sum.splits if_splits)

lemma validate_other:
  "validate rm ti xs st = Inr st' \<Longrightarrow> k \<notin> fst ` set xs \<Longrightarrow> st' k = st k"
proof (induction xs arbitrary: st)
  case Nil
  then show ?case by simp
next
  case (Cons x xs)
  obtain i m where x: "x = (i, m)"
    by (cases x)
  from Cons.prems(1) obtain st1 where s1: "validate_entry rm ti i m st = Inr st1"
      and r: "validate rm ti xs st1 = Inr st'"
    by (auto simp: x split: sum.splits)
  from validate_entry_upd [OF s1] obtain v where "st1 = st(i \<mapsto> v)"
    by blast
  moreover from Cons.prems(2) have "k \<noteq> i" "k \<notin> fst ` set xs"
    by (auto simp: x)
  ultimately show ?case
    using Cons.IH [OF r] by simp
qed

lemma validate_dom:
  "validate rm ti xs st = Inr st' \<Longrightarrow> dom st' = dom st \<union> fst ` set xs"
proof (induction xs arbitrary: st)
  case Nil
  then show ?case by simp
next
  case (Cons x xs)
  obtain i m where x: "x = (i, m)"
    by (cases x)
  from Cons.prems(1) obtain st1 where s1: "validate_entry rm ti i m st = Inr st1"
      and r: "validate rm ti xs st1 = Inr st'"
    by (auto simp: x split: sum.splits)
  from validate_entry_upd [OF s1] obtain v where "st1 = st(i \<mapsto> v)"
    by blast
  then have "dom st1 = insert i (dom st)"
    by simp
  with Cons.IH [OF r] show ?case
    by (auto simp: x)
qed

lemma validate_value:
  "validate rm ti xs st = Inr st' \<Longrightarrow> distinct (map fst xs) \<Longrightarrow> (k, m) \<in> set xs \<Longrightarrow>
     st' k = (case st k of
                None \<Rightarrow> Some (default_value m)
              | Some v \<Rightarrow> (case coerce ti k (type m) v of Inl e \<Rightarrow> None | Inr v' \<Rightarrow> Some v'))"
proof (induction xs arbitrary: st)
  case Nil
  then show ?case by simp
next
  case (Cons x xs)
  obtain i n where x: "x = (i, n)"
    by (cases x)
  from Cons.prems(1) obtain st1 where s1: "validate_entry rm ti i n st = Inr st1"
      and r: "validate rm ti xs st1 = Inr st'"
    by (auto simp: x split: sum.splits)
  from Cons.prems(2) have d: "distinct (map fst xs)" and ni: "i \<notin> fst ` set xs"
    by (auto simp: x)
  show ?case
  proof (cases "(k, m) = (i, n)")
    case True
    then have ki: "k = i" and mn: "m = n"
      by simp_all
    have "st' i = st1 i"
      using validate_other [OF r ni] .
    with validate_entry_value [OF s1] show ?thesis
      unfolding ki mn by simp
  next
    case False
    with Cons.prems(3) have mem: "(k, m) \<in> set xs"
      by (auto simp: x)
    then have "k \<noteq> i"
      using ni by force
    moreover from validate_entry_upd [OF s1] obtain v where "st1 = st(i \<mapsto> v)"
      by blast
    ultimately have "st1 k = st k"
      by simp
    with Cons.IH [OF r d mem] show ?thesis
      by simp
  qed
qed

lemma read_lines_dom:
  "read_lines lines st = Inr raw \<Longrightarrow> dom raw \<subseteq> dom st \<union> fst ` set settings_model"
proof (induction lines arbitrary: st)
  case Nil
  then show ?case by auto
next
  case (Cons i rest)
  show ?case
  proof (cases "split_line i")
    case Nil
    with Cons.prems show ?thesis by simp
  next
    case (Cons key vals)
    note sl = this
    show ?thesis
    proof (cases "key \<in> fst ` set settings_model")
      case False
      with sl Cons.prems have "read_lines rest st = Inr raw"
        by simp
      from Cons.IH [OF this] show ?thesis .
    next
      case True
      with sl Cons.prems obtain v vs where "vals = v # vs"
          and r: "read_lines rest (st(key \<mapsto> VStr v)) = Inr raw"
        by (cases vals) auto
      have "dom (st(key \<mapsto> VStr v)) = insert key (dom st)"
        by simp
      with Cons.IH [OF r] True show ?thesis
        by blast
    qed
  qed
qed

lemma read_lines_strings:
  "read_lines lines st = Inr raw \<Longrightarrow> \<forall>k v. st k = Some v \<longrightarrow> (\<exists>s. v = VStr s) \<Longrightarrow>
     raw k = Some v \<Longrightarrow> \<exists>s. v = VStr s"
proof (induction lines arbitrary: st)
  case Nil
  then show ?case by auto
next
  case (Cons i rest)
  show ?case
  proof (cases "split_line i")
    case Nil
    with Cons.prems show ?thesis by simp
  next
    case (Cons key vals)
    note sl = this
    show ?thesis
    proof (cases "key \<in> fst ` set settings_model")
      case False
      with sl Cons.prems have "read_lines rest st = Inr raw"
        by simp
      from Cons.IH [OF this Cons.prems(2,3)] show ?thesis .
    next
      case True
      with sl Cons.prems obtain w vs where "vals = w # vs"
          and r: "read_lines rest (st(key \<mapsto> VStr w)) = Inr raw"
        by (cases vals) auto
      have "\<forall>k v. (st(key \<mapsto> VStr w)) k = Some v \<longrightarrow> (\<exists>s. v = VStr s)"
        using Cons.prems(2) by auto
      from Cons.IH [OF r this Cons.prems(3)] show ?thesis .
    qed
  qed
qed

lemma settings_model_distinct: "distinct (map fst settings_model)"
  by (simp add: settings_model_def)






lemmas settings_eval = readSettings_def read_lines.simps split_line_def py_split_def split_from.simps
  remove_char_def settings_model_def validate_entry_def CR_def LF_def upper_def upper_char_def
  example_match_def example_int_def setting_of_def















text \<open>
  C10 fails on the code for a value that contains \<open>=\<close>. The reading loop splits the
  line at every \<open>=\<close> and stores the second piece only: the line \<open>KEY=pass=word\<close>
  supplies the value \<open>pass=word\<close>, and the returned configuration holds \<open>pass\<close>
  for \<open>KEY\<close>, which is neither the supplied value nor the default.
\<close>

theorem value_cut_at_second_equals:
  "value_after_first_equals ''KEY=pass=word'' = ''pass=word''
   \<and> setting_of (readSettings example_match example_int
         (Some [''SSID=net'' @ [LF], ''KEY=pass=word'' @ [LF]])) ''KEY''
       = Inr (Some (VStr ''pass''))"
  by (simp add: settings_eval value_after_first_equals_def)

text \<open>
  The rest of C10 holds. When \<open>readSettings\<close> returns, the reading loop has stored
  strings, for keys of the schema only, and the configuration has exactly the keys of
  the schema: each key holds the conversion of the string stored for it to the type
  of its entry, or the default of its entry when no line supplied it. Lines with
  other keys leave no trace.
\<close>

lemma readSettings_entries:
  assumes "readSettings re_match to_int (Some lines) = Inr cfg"
  shows "\<exists>raw. read_lines lines Map.empty = Inr raw
           \<and> (\<forall>k v. raw k = Some v \<longrightarrow> (\<exists>s. v = VStr s))
           \<and> dom cfg = fst ` set settings_model
           \<and> (\<forall>(k, m) \<in> set settings_model.
                 cfg k = (case raw k of
                            None \<Rightarrow> Some (default_value m)
                          | Some v \<Rightarrow> (case coerce to_int k (type m) v of
                                         Inl e \<Rightarrow> None
                                       | Inr v' \<Rightarrow> Some v')))"
proof -
  from assms obtain raw where r: "read_lines lines Map.empty = Inr raw"
      and v: "validate re_match to_int settings_model raw = Inr cfg"
    by (auto simp: readSettings_def split: sum.splits)
  have str: "\<forall>k v. raw k = Some v \<longrightarrow> (\<exists>s. v = VStr s)"
    using read_lines_strings [OF r] by blast
  from read_lines_dom [OF r] have "dom raw \<subseteq> fst ` set settings_model"
    by simp
  with validate_dom [OF v] have d: "dom cfg = fst ` set settings_model"
    by auto
  have "\<forall>(k, m) \<in> set settings_model.
          cfg k = (case raw k of
                     None \<Rightarrow> Some (default_value m)
                   | Some v \<Rightarrow> (case coerce to_int k (type m) v of
                                  Inl e \<Rightarrow> None
                                | Inr v' \<Rightarrow> Some v'))"
    using validate_value [OF v settings_model_distinct] by blast
  with r str d show ?thesis
    by blast
qed

lemma readSettings_entries_example:
  "\<exists>cfg. readSettings example_match example_int
        (Some [''SSID=net'' @ [LF], ''KEY=secret'' @ [LF], ''COLOUR=red'' @ [LF], ''PORT=8080''])
          = Inr cfg
     \<and> dom cfg = {''SSID'', ''KEY'', ''MAX_CON'', ''TIMEOUT'', ''PORT'', ''STATIC'', ''ADDR'',
                   ''MASK'', ''GATEWAY'', ''ADDR_FAMILY''}
     \<and> cfg ''PORT'' = Some (VInt 8080) \<and> cfg ''MAX_CON'' = Some (VInt 5)"
proof -
  let ?l = "[''SSID=net'' @ [LF], ''KEY=secret'' @ [LF], ''COLOUR=red'' @ [LF], ''PORT=8080'']"
  let ?r = "[''SSID'' \<mapsto> VStr ''net'', ''KEY'' \<mapsto> VStr ''secret'', ''PORT'' \<mapsto> VStr ''8080'']"
  have r: "read_lines ?l Map.empty = Inr ?r"
    by (simp add: settings_eval)
  have "\<exists>cfg. readSettings example_match example_int (Some ?l) = Inr cfg"
    by (simp add: settings_eval)
  then obtain cfg where c: "readSettings example_match example_int (Some ?l) = Inr cfg"
    by blast
  from readSettings_entries [OF c] r
  have d: "dom cfg = fst ` set settings_model"
    and all: "\<forall>(k, m) \<in> set settings_model.
                 cfg k = (case ?r k of
                            None \<Rightarrow> Some (default_value m)
                          | Some v \<Rightarrow> (case coerce example_int k (type m) v of
                                         Inl e \<Rightarrow> None
                                       | Inr v' \<Rightarrow> Some v'))"
    by auto
  from d have d': "dom cfg = {''SSID'', ''KEY'', ''MAX_CON'', ''TIMEOUT'', ''PORT'', ''STATIC'',
      ''ADDR'', ''MASK'', ''GATEWAY'', ''ADDR_FAMILY''}"
    by (simp add: settings_model_def)
  from all have "cfg ''PORT'' = Some (VInt 8080)" and "cfg ''MAX_CON'' = Some (VInt 5)"
    by (simp_all add: settings_model_def example_int_def)
  with c d' show ?thesis
    by blast
qed

end
